theory Spec2Isabelle
  imports Complex_Main
begin

section \<open>JavaScript values\<close>

text \<open>
  A JavaScript number is a finite value, \<open>NaN\<close>, \<open>Infinity\<close> or \<open>-Infinity\<close>. The
  special values and the rules that produce them (\<open>Infinity - Infinity\<close>, \<open>0 / 0\<close>,
  \<open>Math.sqrt\<close> of a negative number, \<open>Math.max()\<close> of nothing) are modelled as
  JavaScript has them; the sign of zero is not modelled.

  A finite value is a real number, and every operation that rounds its result takes the
  rounding as its first argument \<open>rnd\<close>. JavaScript rounds each result to the nearest
  binary64 number: that rounding is \<open>fl\<close>, and the claims are settled under \<open>fl\<close> or
  under every rounding. \<open>exact\<close> rounds nothing; it serves only the remarks that tell
  what a formula gives before rounding.
\<close>

datatype jsnum = Fin real | PInf | NInf | NaN

definition exact :: "real \<Rightarrow> jsnum" where
  "exact a = Fin a"

text \<open>An infinity of the sign of \<open>s\<close>; \<open>NaN\<close> when \<open>s\<close> is zero.\<close>

definition signed_inf :: "real \<Rightarrow> jsnum" where
  "signed_inf s = (if s = 0 then NaN else if 0 < s then PInf else NInf)"

subsection \<open>Rounding to binary64\<close>

text \<open>\<open>2\<^sup>k\<close> for an integer \<open>k\<close>.\<close>

definition pow2 :: "int \<Rightarrow> real" where
  "pow2 k = (if 0 \<le> k then 2 ^ nat k else 1 / 2 ^ nat (- k))"

text \<open>The nearest integer, a tie going to the even one.\<close>

definition round_even :: "real \<Rightarrow> int" where
  "round_even x =
     (let f = \<lfloor>x\<rfloor>; d = x - of_int f
      in if d < 1 / 2 then f else if 1 / 2 < d then f + 1 else if even f then f else f + 1)"

text \<open>
  The binary64 exponent of a real: \<open>\<lfloor>log\<^sub>2 |x|\<rfloor>\<close>, and -1022 for the subnormal range.
  A binary64 number of exponent \<open>e\<close> is a multiple of \<open>2\<^bsup>e - 52\<^esup>\<close>.
\<close>

definition exponent :: "real \<Rightarrow> int" where
  "exponent x = max \<lfloor>log 2 \<bar>x\<bar>\<rfloor> (- 1022)"

definition binary64 :: "real \<Rightarrow> real" where
  "binary64 x = of_int (round_even (x / pow2 (exponent x - 52))) * pow2 (exponent x - 52)"

text \<open>
  The result of an operation whose exact value is \<open>x\<close>: \<open>x\<close> rounded to the nearest
  binary64 number, and an infinity when that is \<open>2\<^sup>1\<^sup>0\<^sup>2\<^sup>4\<close> or more in magnitude. A number
  literal such as \<open>1.3\<close> denotes \<open>fl (13 / 10)\<close>.
\<close>

definition fl :: "real \<Rightarrow> jsnum" where
  "fl x = (let r = binary64 x in if pow2 1024 \<le> \<bar>r\<bar> then signed_inf r else Fin r)"

text \<open>
  A property of an observation record holds a number or \<open>null\<close>, or is absent
  (\<open>undefined\<close>). String-valued properties are modelled only where the code reads them
  as labels (\<open>month\<close>).
\<close>

datatype jsval = Undefined | Null | Num jsnum

text \<open>\<open>ToNumber\<close>, applied by the arithmetic operators to their operands.\<close>

fun to_number :: "jsval \<Rightarrow> jsnum" where
  "to_number Undefined = NaN"
| "to_number Null = Fin 0"
| "to_number (Num n) = n"

fun js_neg :: "jsnum \<Rightarrow> jsnum" where
  "js_neg (Fin a) = Fin (- a)"
| "js_neg PInf = NInf"
| "js_neg NInf = PInf"
| "js_neg NaN = NaN"

text \<open>The operator \<open>+\<close> on two numbers.\<close>

fun js_add :: "(real \<Rightarrow> jsnum) \<Rightarrow> jsnum \<Rightarrow> jsnum \<Rightarrow> jsnum" where
  "js_add rnd (Fin a) (Fin b) = rnd (a + b)"
| "js_add rnd NaN _ = NaN"
| "js_add rnd _ NaN = NaN"
| "js_add rnd PInf NInf = NaN"
| "js_add rnd NInf PInf = NaN"
| "js_add rnd PInf _ = PInf"
| "js_add rnd _ PInf = PInf"
| "js_add rnd NInf _ = NInf"
| "js_add rnd _ NInf = NInf"

text \<open>The operator \<open>-\<close> on two numbers.\<close>

definition js_sub :: "(real \<Rightarrow> jsnum) \<Rightarrow> jsnum \<Rightarrow> jsnum \<Rightarrow> jsnum" where
  "js_sub rnd a b = js_add rnd a (js_neg b)"

text \<open>The operator \<open>*\<close> on two numbers.\<close>

fun js_mul :: "(real \<Rightarrow> jsnum) \<Rightarrow> jsnum \<Rightarrow> jsnum \<Rightarrow> jsnum" where
  "js_mul rnd (Fin a) (Fin b) = rnd (a * b)"
| "js_mul rnd NaN _ = NaN"
| "js_mul rnd _ NaN = NaN"
| "js_mul rnd PInf (Fin b) = signed_inf b"
| "js_mul rnd (Fin a) PInf = signed_inf a"
| "js_mul rnd NInf (Fin b) = signed_inf (- b)"
| "js_mul rnd (Fin a) NInf = signed_inf (- a)"
| "js_mul rnd PInf PInf = PInf"
| "js_mul rnd PInf NInf = NInf"
| "js_mul rnd NInf PInf = NInf"
| "js_mul rnd NInf NInf = PInf"

text \<open>
  The operator \<open>/\<close> on two numbers. A finite divisor that is zero is the positive zero:
  the divisors of the code are lengths, square roots and a mean compared with 0 first.
\<close>

fun js_div :: "(real \<Rightarrow> jsnum) \<Rightarrow> jsnum \<Rightarrow> jsnum \<Rightarrow> jsnum" where
  "js_div rnd (Fin a) (Fin b) = (if b = 0 then signed_inf a else rnd (a / b))"
| "js_div rnd NaN _ = NaN"
| "js_div rnd _ NaN = NaN"
| "js_div rnd (Fin a) PInf = Fin 0"
| "js_div rnd (Fin a) NInf = Fin 0"
| "js_div rnd PInf (Fin b) = (if 0 \<le> b then PInf else NInf)"
| "js_div rnd NInf (Fin b) = (if 0 \<le> b then NInf else PInf)"
| "js_div rnd PInf PInf = NaN"
| "js_div rnd PInf NInf = NaN"
| "js_div rnd NInf PInf = NaN"
| "js_div rnd NInf NInf = NaN"

text \<open>\<open>Math.sqrt\<close>: the square root, rounded.\<close>

fun Math_sqrt :: "(real \<Rightarrow> jsnum) \<Rightarrow> jsnum \<Rightarrow> jsnum" where
  "Math_sqrt rnd (Fin a) = (if a < 0 then NaN else rnd (sqrt a))"
| "Math_sqrt rnd PInf = PInf"
| "Math_sqrt rnd NInf = NaN"
| "Math_sqrt rnd NaN = NaN"

fun Math_abs :: "jsnum \<Rightarrow> jsnum" where
  "Math_abs (Fin a) = Fin \<bar>a\<bar>"
| "Math_abs PInf = PInf"
| "Math_abs NInf = PInf"
| "Math_abs NaN = NaN"

text \<open>\<open>Math.pow\<close> with a natural exponent, by repeated multiplication (the code
  takes squares only); \<open>Math.pow(x, 0)\<close> is 1 for every \<open>x\<close>.\<close>

primrec Math_pow :: "(real \<Rightarrow> jsnum) \<Rightarrow> jsnum \<Rightarrow> nat \<Rightarrow> jsnum" where
  "Math_pow rnd x 0 = Fin 1"
| "Math_pow rnd x (Suc k) = js_mul rnd x (Math_pow rnd x k)"

text \<open>\<open>Math.round\<close>: the nearest integer, a tie going up; the result of
  \<open>Math.round\<close> needs no rounding.\<close>

fun Math_round :: "jsnum \<Rightarrow> jsnum" where
  "Math_round (Fin a) = Fin (of_int \<lfloor>a + 1 / 2\<rfloor>)"
| "Math_round PInf = PInf"
| "Math_round NInf = NInf"
| "Math_round NaN = NaN"

text \<open>The comparison \<open>a < b\<close> of two numbers; false when either is \<open>NaN\<close>.\<close>

fun js_lt :: "jsnum \<Rightarrow> jsnum \<Rightarrow> bool" where
  "js_lt (Fin a) (Fin b) = (a < b)"
| "js_lt NaN _ = False"
| "js_lt _ NaN = False"
| "js_lt _ NInf = False"
| "js_lt PInf _ = False"
| "js_lt NInf _ = True"
| "js_lt _ PInf = True"

definition js_gt :: "jsnum \<Rightarrow> jsnum \<Rightarrow> bool" where
  "js_gt a b = js_lt b a"

text \<open>The comparison \<open>a <= b\<close> of two numbers; false when either is \<open>NaN\<close>.\<close>

definition js_le :: "jsnum \<Rightarrow> jsnum \<Rightarrow> bool" where
  "js_le a b = (a \<noteq> NaN \<and> b \<noteq> NaN \<and> \<not> js_lt b a)"

definition js_ge :: "jsnum \<Rightarrow> jsnum \<Rightarrow> bool" where
  "js_ge a b = js_le b a"

text \<open>Strict equality \<open>===\<close> of two numbers: \<open>NaN\<close> is not equal to itself.\<close>

definition num_strict_eq :: "jsnum \<Rightarrow> jsnum \<Rightarrow> bool" where
  "num_strict_eq a b = (a \<noteq> NaN \<and> a = b)"

text \<open>Strict equality \<open>===\<close> of two property values.\<close>

fun strict_eq :: "jsval \<Rightarrow> jsval \<Rightarrow> bool" where
  "strict_eq (Num a) (Num b) = num_strict_eq a b"
| "strict_eq Undefined Undefined = True"
| "strict_eq Null Null = True"
| "strict_eq _ _ = False"

text \<open>\<open>Math.max(...vs)\<close> and \<open>Math.min(...vs)\<close>: the operands are converted to
  numbers, a \<open>NaN\<close> among them gives \<open>NaN\<close>, and no operand gives \<open>-Infinity\<close> and
  \<open>Infinity\<close>.\<close>

definition max2 :: "jsnum \<Rightarrow> jsnum \<Rightarrow> jsnum" where
  "max2 a b = (if a = NaN \<or> b = NaN then NaN else if js_lt a b then b else a)"

definition min2 :: "jsnum \<Rightarrow> jsnum \<Rightarrow> jsnum" where
  "min2 a b = (if a = NaN \<or> b = NaN then NaN else if js_lt b a then b else a)"

definition Math_max :: "jsval list \<Rightarrow> jsnum" where
  "Math_max vs = foldl max2 NInf (map to_number vs)"

definition Math_min :: "jsval list \<Rightarrow> jsnum" where
  "Math_min vs = foldl min2 PInf (map to_number vs)"

section \<open>utils/calculations.js\<close>

text \<open>
  \<open>calculateCorrelation(x, y)\<close>. The arrays hold numbers. After the first line the
  two arrays have the same length, so \<open>y[i]\<close> in the third \<open>reduce\<close> is the element of
  \<open>y\<close> beside \<open>xi\<close>.
\<close>

definition calculateCorrelation :: "(real \<Rightarrow> jsnum) \<Rightarrow> jsnum list \<Rightarrow> jsnum list \<Rightarrow> jsnum" where
  "calculateCorrelation rnd x y =
     (if length x \<noteq> length y \<or> length x = 0 then Fin 0
      else
        let n = Fin (real (length x));
            sumX = foldl (\<lambda>a b. js_add rnd a b) (Fin 0) x;
            sumY = foldl (\<lambda>a b. js_add rnd a b) (Fin 0) y;
            sumXY = foldl (\<lambda>sum (xi, yi). js_add rnd sum (js_mul rnd xi yi)) (Fin 0) (zip x y);
            sumXX = foldl (\<lambda>sum xi. js_add rnd sum (js_mul rnd xi xi)) (Fin 0) x;
            sumYY = foldl (\<lambda>sum yi. js_add rnd sum (js_mul rnd yi yi)) (Fin 0) y;
            numerator = js_sub rnd (js_mul rnd n sumXY) (js_mul rnd sumX sumY);
            denominator = Math_sqrt rnd
              (js_mul rnd (js_sub rnd (js_mul rnd n sumXX) (js_mul rnd sumX sumX))
                      (js_sub rnd (js_mul rnd n sumYY) (js_mul rnd sumY sumY)))
        in if num_strict_eq denominator (Fin 0) then Fin 0
           else js_div rnd numerator denominator)"

section \<open>Observation records\<close>

text \<open>
  An observation record is a JavaScript object. Its numeric properties (\<open>year\<close>,
  \<open>monthIndex\<close>, \<open>temp\<close>, \<open>tempMin\<close>, \<open>tempMax\<close>, \<open>rainfall\<close>, \<open>humidity\<close>,
  \<open>sunshine\<close>) are read by name, also by a name computed at run time (\<open>d[metric]\<close>,
  \<open>record[key]\<close>), so they are kept as an association list; reading a property that
  the object does not have gives \<open>undefined\<close>. The \<open>month\<close> label is a string, absent
  when the object has none; \<open>get\<close> reads the numeric properties, whose names are neither
  \<open>month\<close> nor a name that every object inherits.
\<close>

record observation =
  month :: "string option"
  props :: "(string \<times> jsval) list"

definition get :: "observation \<Rightarrow> string \<Rightarrow> jsval" where
  "get d key = (case map_of (props d) key of None \<Rightarrow> Undefined | Some v \<Rightarrow> v)"

text \<open>The test \<open>v !== null && v !== undefined\<close> of the filters.\<close>

definition present :: "jsval \<Rightarrow> bool" where
  "present v = (v \<noteq> Null \<and> v \<noteq> Undefined)"

text \<open>
  \<open>calculateAverage(values)\<close>. The callers pass an array; its elements are added with
  \<open>+\<close>, which converts them to numbers.
\<close>

definition calculateAverage :: "(real \<Rightarrow> jsnum) \<Rightarrow> jsval list \<Rightarrow> jsnum" where
  "calculateAverage rnd values =
     (if length values = 0 then Fin 0
      else js_div rnd (foldl (\<lambda>sum val. js_add rnd sum (to_number val)) (Fin 0) values)
                  (Fin (real (length values))))"

text \<open>
  The result of \<open>calculateTemperatureStats\<close>; \<open>max\<close>, \<open>min\<close> and \<open>range\<close> are primed
  here. A month label is \<open>None\<close> where the code yields \<open>undefined\<close>.
\<close>

record temperature_stats =
  average :: jsnum
  max' :: jsnum
  min' :: jsnum
  range' :: jsnum
  hottestMonth :: "string option"
  coldestMonth :: "string option"

text \<open>\<open>data.find(p)?.month\<close>\<close>

definition find_month :: "(observation \<Rightarrow> bool) \<Rightarrow> observation list \<Rightarrow> string option" where
  "find_month p data = (case find p data of None \<Rightarrow> None | Some d \<Rightarrow> month d)"

text \<open>\<open>calculateTemperatureStats(data)\<close>; \<open>None\<close> as argument is an absent \<open>data\<close>,
  \<open>None\<close> as result is \<open>null\<close>.\<close>

definition calculateTemperatureStats :: "(real \<Rightarrow> jsnum) \<Rightarrow> observation list option \<Rightarrow> temperature_stats option" where
  "calculateTemperatureStats rnd data =
     (case data of
        None \<Rightarrow> None
      | Some ds \<Rightarrow>
          if length ds = 0 then None
          else
            let temperatures = filter present (map (\<lambda>d. get d ''temp'') ds);
                maxTemps = filter present (map (\<lambda>d. get d ''tempMax'') ds);
                minTemps = filter present (map (\<lambda>d. get d ''tempMin'') ds)
            in Some \<lparr> average = calculateAverage rnd temperatures,
                      max' = Math_max maxTemps,
                      min' = Math_min minTemps,
                      range' = js_sub rnd (Math_max maxTemps) (Math_min minTemps),
                      hottestMonth =
                        find_month (\<lambda>d. strict_eq (get d ''tempMax'') (Num (Math_max maxTemps))) ds,
                      coldestMonth =
                        find_month (\<lambda>d. strict_eq (get d ''tempMin'') (Num (Math_min minTemps))) ds \<rparr>)"

text \<open>
  \<open>[...new Set(vs)]\<close>: the values in the order of their first occurrence, each once.
  A \<open>Set\<close> holds \<open>NaN\<close> once too.
\<close>

definition Set_spread :: "jsval list \<Rightarrow> jsval list" where
  "Set_spread vs = rev (remdups (rev vs))"

record yearly_aggregate =
  year :: jsval
  totalRainfall :: jsnum
  avgTemp :: jsnum
  avgHumidity :: jsnum
  totalSunshine :: jsnum

text \<open>\<open>calculateYearlyAggregates(yearlyData)\<close>\<close>

definition calculateYearlyAggregates :: "(real \<Rightarrow> jsnum) \<Rightarrow> observation list \<Rightarrow> yearly_aggregate list" where
  "calculateYearlyAggregates rnd yearlyData =
     (let years = Set_spread (map (\<lambda>d. get d ''year'') yearlyData)
      in map (\<lambda>y.
           let yearData = filter (\<lambda>d. strict_eq (get d ''year'') y) yearlyData
           in \<lparr> year = y,
                totalRainfall = Math_round
                  (foldl (\<lambda>sum d. js_add rnd sum (to_number (get d ''rainfall''))) (Fin 0) yearData),
                avgTemp = js_div rnd
                  (Math_round (js_mul rnd (calculateAverage rnd (map (\<lambda>d. get d ''temp'') yearData)) (Fin 10)))
                  (Fin 10),
                avgHumidity = Math_round
                  (calculateAverage rnd (map (\<lambda>d. get d ''humidity'') yearData)),
                totalSunshine = js_div rnd
                  (Math_round (js_mul rnd
                    (foldl (\<lambda>sum d. js_add rnd sum (to_number (get d ''sunshine''))) (Fin 0) yearData)
                    (Fin 10)))
                  (Fin 10) \<rparr>) years)"

text \<open>\<open>detectAnomalies(data, metric, threshold)\<close>\<close>

definition detectAnomalies :: "(real \<Rightarrow> jsnum) \<Rightarrow> observation list \<Rightarrow> string \<Rightarrow> jsnum \<Rightarrow> observation list" where
  "detectAnomalies rnd data metric threshold =
     (let values = filter present (map (\<lambda>d. get d metric) data);
          mean = calculateAverage rnd values;
          variance = calculateAverage rnd
            (map (\<lambda>v. Num (Math_pow rnd (js_sub rnd (to_number v) mean) 2)) values);
          stdDev = Math_sqrt rnd variance
      in filter (\<lambda>d.
           let value = get d metric
           in js_gt (Math_abs (js_sub rnd (to_number value) mean)) (js_mul rnd threshold stdDev)) data)"

section \<open>hooks/useDataFiltering.js\<close>

text \<open>
  A criterion value of \<open>searchData\<close> is a primitive value or an object with
  properties of its own (\<open>{min: 70, max: 80}\<close>).
\<close>

datatype criterion = Value jsval | Object "(string \<times> jsval) list"

datatype js_error = TypeError

text \<open>\<open>value.min\<close> and \<open>value.max\<close> on an object.\<close>

definition obj_get :: "(string \<times> jsval) list \<Rightarrow> string \<Rightarrow> jsval" where
  "obj_get obj key = (case map_of obj key of None \<Rightarrow> Undefined | Some v \<Rightarrow> v)"

text \<open>
  The callback of \<open>every\<close> for one entry \<open>[key, value]\<close> of the criteria.
  \<open>typeof null\<close> is \<open>"object"\<close>, and reading \<open>null.min\<close> throws a \<open>TypeError\<close>.
  \<open>>=\<close> and \<open><=\<close> convert both operands to numbers. A property of a record is a
  primitive value, which is never strictly equal to an object.
\<close>

fun matches :: "observation \<Rightarrow> string \<times> criterion \<Rightarrow> js_error + bool" where
  "matches record (key, Value Null) = Inl TypeError"
| "matches record (key, Object obj) =
     (if obj_get obj ''min'' \<noteq> Undefined \<and> obj_get obj ''max'' \<noteq> Undefined
      then let recordValue = get record key
           in Inr (js_ge (to_number recordValue) (to_number (obj_get obj ''min''))
                 \<and> js_le (to_number recordValue) (to_number (obj_get obj ''max'')))
      else Inr False)"
| "matches record (key, Value v) = Inr (strict_eq (get record key) v)"

text \<open>\<open>entries.every(callback)\<close>: stops at the first entry that fails.\<close>

fun every :: "observation \<Rightarrow> (string \<times> criterion) list \<Rightarrow> js_error + bool" where
  "every record [] = Inr True"
| "every record (entry # entries) =
     (case matches record entry of
        Inl e \<Rightarrow> Inl e
      | Inr False \<Rightarrow> Inr False
      | Inr True \<Rightarrow> every record entries)"

text \<open>\<open>yearly.filter(record => entries.every(callback))\<close>: an exception of the
  callback ends the call.\<close>

fun filter_every :: "(string \<times> criterion) list \<Rightarrow> observation list \<Rightarrow> js_error + observation list" where
  "filter_every criteria [] = Inr []"
| "filter_every criteria (record # records) =
     (case every record criteria of
        Inl e \<Rightarrow> Inl e
      | Inr keep \<Rightarrow>
          (case filter_every criteria records of
             Inl e \<Rightarrow> Inl e
           | Inr out \<Rightarrow> Inr (if keep then record # out else out)))"

text \<open>\<open>searchData(criteria)\<close> over \<open>data?.yearly\<close>, which is \<open>None\<close> when absent.\<close>

definition searchData :: "observation list option \<Rightarrow> (string \<times> criterion) list \<Rightarrow> js_error + observation list" where
  "searchData yearly criteria =
     (case yearly of None \<Rightarrow> Inr [] | Some records \<Rightarrow> filter_every criteria records)"

text \<open>\<open>d[metric] || 0\<close>: \<open>undefined\<close>, \<open>null\<close>, \<open>NaN\<close> and 0 are falsy.\<close>

fun or_zero :: "jsval \<Rightarrow> jsnum" where
  "or_zero Undefined = Fin 0"
| "or_zero Null = Fin 0"
| "or_zero (Num NaN) = Fin 0"
| "or_zero (Num n) = n"

text \<open>An entry of \<open>comparison.differences\<close>; its properties \<open>year1\<close> and \<open>year2\<close> hold
  the two means.\<close>

record metric_difference =
  year1_mean :: jsnum
  year2_mean :: jsnum
  difference :: jsnum
  percentChange :: jsnum

record comparison =
  year1 :: jsval
  year2 :: jsval
  differences :: "(string \<times> metric_difference) list"

text \<open>The callback of \<open>metrics.forEach\<close>: the entry of one metric.\<close>

definition compare_metric :: "(real \<Rightarrow> jsnum) \<Rightarrow> observation list \<Rightarrow> observation list \<Rightarrow> string \<Rightarrow> metric_difference" where
  "compare_metric rnd data1 data2 metric =
     (let avg1 = js_div rnd (foldl (\<lambda>sum d. js_add rnd sum (or_zero (get d metric))) (Fin 0) data1)
                        (Fin (real (length data1)));
          avg2 = js_div rnd (foldl (\<lambda>sum d. js_add rnd sum (or_zero (get d metric))) (Fin 0) data2)
                        (Fin (real (length data2)))
      in \<lparr> year1_mean = avg1, year2_mean = avg2,
           difference = js_sub rnd avg2 avg1,
           percentChange =
             (if \<not> num_strict_eq avg1 (Fin 0)
              then js_mul rnd (js_div rnd (js_sub rnd avg2 avg1) avg1) (Fin 100)
              else Fin 0) \<rparr>)"

text \<open>\<open>getYearComparison(year1, year2)\<close> over \<open>data?.yearly\<close>.\<close>

definition getYearComparison :: "(real \<Rightarrow> jsnum) \<Rightarrow> observation list option \<Rightarrow> jsval \<Rightarrow> jsval \<Rightarrow> comparison option" where
  "getYearComparison rnd yearly y1 y2 =
     (case yearly of
        None \<Rightarrow> None
      | Some records \<Rightarrow>
          let data1 = filter (\<lambda>d. strict_eq (get d ''year'') y1) records;
              data2 = filter (\<lambda>d. strict_eq (get d ''year'') y2) records
          in if length data1 = 0 \<or> length data2 = 0 then None
             else Some \<lparr> year1 = y1, year2 = y2,
                         differences = map (\<lambda>metric. (metric, compare_metric rnd data1 data2 metric))
                           [''temp'', ''rainfall'', ''humidity'', ''sunshine''] \<rparr>)"

section \<open>Notions of the specification\<close>

text \<open>
  The two factors under the square root of the correlation formula and its numerator,
  over finite values: \<open>n\<Sigma>x\<^sup>2 - (\<Sigma>x)\<^sup>2\<close> and \<open>n\<Sigma>xy - \<Sigma>x\<Sigma>y\<close>.
\<close>

definition spread :: "real list \<Rightarrow> real" where
  "spread xs = real (length xs) * (\<Sum>x\<leftarrow>xs. x * x) - (sum_list xs)\<^sup>2"

definition covar :: "real list \<Rightarrow> real list \<Rightarrow> real" where
  "covar xs ys = real (length xs) * (\<Sum>(x, y)\<leftarrow>zip xs ys. x * y) - sum_list xs * sum_list ys"

text \<open>The finite number a property holds, if it holds one.\<close>

fun finite_value :: "jsval \<Rightarrow> real option" where
  "finite_value (Num (Fin a)) = Some a"
| "finite_value _ = None"

text \<open>The finite values of a metric that are present in a list of records.\<close>

definition present_values :: "observation list \<Rightarrow> string \<Rightarrow> real list" where
  "present_values ds metric = List.map_filter (\<lambda>d. finite_value (get d metric)) ds"

text \<open>The records of a year.\<close>

definition year_records :: "observation list \<Rightarrow> jsval \<Rightarrow> observation list" where
  "year_records ds y = filter (\<lambda>d. strict_eq (get d ''year'') y) ds"

text \<open>The mean of a metric over only the values that are present, as the
  specification asks of every aggregation.\<close>

definition mean_of_present :: "(real \<Rightarrow> jsnum) \<Rightarrow> observation list \<Rightarrow> string \<Rightarrow> jsnum" where
  "mean_of_present rnd ds metric = calculateAverage rnd (filter present (map (\<lambda>d. get d metric) ds))"

text \<open>
  The mean of a list of numbers in the arithmetic of the code: the numbers are added from
  left to right, each sum rounded, and the sum is divided by their count.
\<close>

definition rounded_mean :: "(real \<Rightarrow> jsnum) \<Rightarrow> jsnum list \<Rightarrow> jsnum" where
  "rounded_mean rnd xs = js_div rnd (foldl (js_add rnd) (Fin 0) xs) (Fin (real (length xs)))"

text \<open>
  A value with the missing one read as zero: 0 for \<open>undefined\<close> and \<open>null\<close>, and for
  \<open>NaN\<close>, which \<open>||\<close> takes for missing too; every other value is itself.
\<close>

fun zero_if_missing :: "jsval \<Rightarrow> jsval" where
  "zero_if_missing Undefined = Num (Fin 0)"
| "zero_if_missing Null = Num (Fin 0)"
| "zero_if_missing (Num NaN) = Num (Fin 0)"
| "zero_if_missing v = v"

text \<open>The record with each missing value of the four compared metrics replaced by 0.\<close>

definition zero_filled :: "observation \<Rightarrow> observation" where
  "zero_filled d =
     d\<lparr>props := map (\<lambda>metric. (metric, zero_if_missing (get d metric)))
                   [''temp'', ''rainfall'', ''humidity'', ''sunshine''] @ props d\<rparr>"

text \<open>The mean of a metric over all the records, each missing value counted as 0.\<close>

definition mean_missing_as_zero :: "(real \<Rightarrow> jsnum) \<Rightarrow> observation list \<Rightarrow> string \<Rightarrow> jsnum" where
  "mean_missing_as_zero rnd ds metric =
     rounded_mean rnd (map (\<lambda>d. to_number (zero_if_missing (get d metric))) ds)"

text \<open>
  The mean of \<open>n\<close> copies of one number: the number itself when the sums and the
  quotient round exactly.
\<close>

definition mean_of_copies :: "(real \<Rightarrow> jsnum) \<Rightarrow> nat \<Rightarrow> real \<Rightarrow> jsnum" where
  "mean_of_copies rnd n v = rounded_mean rnd (replicate n (Fin v))"


text \<open>
  A criterion as the specification reads it: a range object carries both bounds and
  asks for \<open>min \<le> v \<le> max\<close>; every other criterion value asks for a property
  exactly equal to it.
\<close>

fun satisfies :: "observation \<Rightarrow> string \<times> criterion \<Rightarrow> bool" where
  "satisfies record (key, Object obj) =
     (if obj_get obj ''min'' \<noteq> Undefined \<and> obj_get obj ''max'' \<noteq> Undefined
      then js_le (to_number (obj_get obj ''min'')) (to_number (get record key))
         \<and> js_le (to_number (get record key)) (to_number (obj_get obj ''max''))
      else False)"
| "satisfies record (key, Value v) = strict_eq (get record key) v"

text \<open>An object that carries only one of the two bounds.\<close>

definition half_range :: "criterion \<Rightarrow> bool" where
  "half_range c =
     (case c of
        Value v \<Rightarrow> False
      | Object obj \<Rightarrow> (obj_get obj ''min'' \<noteq> Undefined) \<noteq> (obj_get obj ''max'' \<noteq> Undefined))"

text \<open>Rounding to the nearest integer and to one decimal.\<close>

definition round_nearest :: "real \<Rightarrow> real" where
  "round_nearest a = of_int \<lfloor>a + 1 / 2\<rfloor>"

definition round_1dp :: "real \<Rightarrow> real" where
  "round_1dp a = round_nearest (a * 10) / 10"

text \<open>A record that carries all four metrics as finite numbers.\<close>

definition complete_metrics :: "observation \<Rightarrow> bool" where
  "complete_metrics d =
     (finite_value (get d ''rainfall'') \<noteq> None \<and> finite_value (get d ''temp'') \<noteq> None
      \<and> finite_value (get d ''humidity'') \<noteq> None \<and> finite_value (get d ''sunshine'') \<noteq> None)"

text \<open>
  A rounding that never yields \<open>NaN\<close>, leaves 0 as it is and keeps the order of the
  exact values. Both \<open>exact\<close> and \<open>fl\<close> are such roundings.
\<close>

definition monotone_rounding :: "(real \<Rightarrow> jsnum) \<Rightarrow> bool" where
  "monotone_rounding rnd =
     ((\<forall>a. rnd a \<noteq> NaN) \<and> rnd 0 = Fin 0 \<and> (\<forall>a b. a \<le> b \<longrightarrow> \<not> js_lt (rnd b) (rnd a)))"

section \<open>Sample observations\<close>

text \<open>Two records of 2020, the second without \<open>temp\<close>, and one record of 2021.\<close>

definition two_years :: "observation list" where
  "two_years =
     [\<lparr>month = Some ''Jan'',
       props = [(''year'', Num (Fin 2020)), (''temp'', Num (Fin 8)), (''rainfall'', Num (Fin 100)),
                (''humidity'', Num (Fin 80)), (''sunshine'', Num (Fin 50))]\<rparr>,
      \<lparr>month = Some ''Feb'',
       props = [(''year'', Num (Fin 2020)), (''rainfall'', Num (Fin 100)),
                (''humidity'', Num (Fin 80)), (''sunshine'', Num (Fin 50))]\<rparr>,
      \<lparr>month = Some ''Jan'',
       props = [(''year'', Num (Fin 2021)), (''temp'', Num (Fin 6)), (''rainfall'', Num (Fin 100)),
                (''humidity'', Num (Fin 80)), (''sunshine'', Num (Fin 50))]\<rparr>]"

text \<open>One record that has no temperature at all.\<close>

definition no_temperatures :: "observation list" where
  "no_temperatures = [\<lparr>month = Some ''Jan'', props = [(''rainfall'', Num (Fin 120))]\<rparr>]"




text \<open>Three records of 2020, of which one has \<open>temp\<close> 1, one has none and one has
  \<open>null\<close>, and one record of 2021.\<close>

definition thirds :: "observation list" where
  "thirds =
     [\<lparr>month = Some ''Jan'', props = [(''year'', Num (Fin 2020)), (''temp'', Num (Fin 1))]\<rparr>,
      \<lparr>month = Some ''Feb'', props = [(''year'', Num (Fin 2020))]\<rparr>,
      \<lparr>month = Some ''Mar'', props = [(''year'', Num (Fin 2020)), (''temp'', Null)]\<rparr>,
      \<lparr>month = Some ''Jan'', props = [(''year'', Num (Fin 2021)), (''temp'', Num (Fin 1))]\<rparr>]"

text \<open>One record of 2020 without \<open>rainfall\<close>.\<close>

definition no_rainfall :: "observation list" where
  "no_rainfall =
     [\<lparr>month = Some ''Jan'',
       props = [(''year'', Num (Fin 2020)), (''temp'', Num (Fin 10)), (''humidity'', Num (Fin 70)),
                (''sunshine'', Num (Fin 100))]\<rparr>]"

text \<open>One record of 2022 whose \<open>sunshine\<close> is \<open>null\<close>.\<close>

definition null_sunshine :: "observation list" where
  "null_sunshine =
     [\<lparr>month = Some ''Jan'',
       props = [(''year'', Num (Fin 2022)), (''sunshine'', Null), (''humidity'', Num (Fin 75))]\<rparr>]"

text \<open>Two records with \<open>temp\<close> 1 and 3: mean 2, standard deviation 1.\<close>

definition one_three :: "observation list" where
  "one_three =
     [\<lparr>month = Some ''Jan'', props = [(''temp'', Num (Fin 1))]\<rparr>,
      \<lparr>month = Some ''Feb'', props = [(''temp'', Num (Fin 3))]\<rparr>]"

section \<open>Rounding to binary64\<close>

lemma exact_simp [simp]: "exact a = Fin a"
  by (simp add: exact_def)

lemma pow2_powr: "pow2 k = 2 powr (of_int k)"
  by (simp add: pow2_def powr_real_of_int inverse_eq_divide)

lemma pow2_pos: "0 < pow2 k"
  by (simp add: pow2_powr)

lemma pow2_nonzero: "pow2 k \<noteq> 0"
  using pow2_pos [of k] by linarith

lemma pow2_add: "pow2 (j + k) = pow2 j * pow2 k"
  by (simp add: pow2_powr powr_add)

lemma pow2_mono: "j \<le> k \<Longrightarrow> pow2 j \<le> pow2 k"
  by (simp add: pow2_powr)

lemma pow2_strict_mono: "j < k \<Longrightarrow> pow2 j < pow2 k"
  by (simp add: pow2_powr)

subsection \<open>Rounding to the nearest integer\<close>

lemma round_even_floor: "\<lfloor>x\<rfloor> \<le> round_even x" "round_even x \<le> \<lfloor>x\<rfloor> + 1"
  by (auto simp: round_even_def Let_def)

lemma round_even_of_int [simp]: "round_even (of_int n) = n"
  by (simp add: round_even_def)

lemma round_even_mono:
  assumes "x \<le> y"
  shows "round_even x \<le> round_even y"
proof (cases "\<lfloor>x\<rfloor> = \<lfloor>y\<rfloor>")
  case True
  with assms have "x - of_int \<lfloor>x\<rfloor> \<le> y - of_int \<lfloor>y\<rfloor>" by simp
  with True show ?thesis
    by (auto simp: round_even_def Let_def)
next
  case False
  with assms have "\<lfloor>x\<rfloor> + 1 \<le> \<lfloor>y\<rfloor>"
    using floor_mono [of x y] by linarith
  with round_even_floor(2) [of x] round_even_floor(1) [of y] show ?thesis
    by linarith
qed

lemma round_even_minus: "round_even (- x) = - round_even x"
proof (cases "x = of_int \<lfloor>x\<rfloor>")
  case True
  then obtain n where "x = of_int n" ..
  then show ?thesis
    by (simp del: of_int_minus add: of_int_minus [symmetric])
next
  case False
  then have neg: "\<lfloor>- x\<rfloor> = - \<lfloor>x\<rfloor> - 1"
    by linarith
  have frac: "- x - of_int \<lfloor>- x\<rfloor> = 1 - (x - of_int \<lfloor>x\<rfloor>)"
    by (simp add: neg)
  show ?thesis
    unfolding round_even_def Let_def frac
    by (auto simp: neg)
qed

lemma round_even_nearest:
  assumes "of_int m - 1 / 2 < x" and "x < of_int m + 1 / 2"
  shows "round_even x = m"
proof -
  have "\<lfloor>x\<rfloor> = m \<or> \<lfloor>x\<rfloor> = m - 1"
    using assms by linarith
  then show ?thesis
  proof
    assume f: "\<lfloor>x\<rfloor> = m"
    with assms have "x - of_int \<lfloor>x\<rfloor> < 1 / 2" by simp
    with f show ?thesis by (simp add: round_even_def Let_def)
  next
    assume f: "\<lfloor>x\<rfloor> = m - 1"
    with assms have "1 / 2 < x - of_int \<lfloor>x\<rfloor>" by simp
    with f show ?thesis by (simp add: round_even_def Let_def)
  qed
qed

subsection \<open>The exponent\<close>

lemma exponent_eval:
  assumes "pow2 k \<le> \<bar>x\<bar>" and "\<bar>x\<bar> < pow2 (k + 1)" and "- 1022 \<le> k"
  shows "exponent x = k"
proof -
  from assms(1) have pos: "0 < \<bar>x\<bar>"
    using pow2_pos [of k] by linarith
  have "\<lfloor>log 2 \<bar>x\<bar>\<rfloor> = k"
    using assms(1,2) pos by (simp add: floor_log_eq_powr_iff pow2_powr)
  with assms(3) show ?thesis by (simp add: exponent_def)
qed

lemma exponent_minus [simp]: "exponent (- x) = exponent x"
  by (simp add: exponent_def)

lemma exponent_ge: "- 1022 \<le> exponent x"
  by (simp add: exponent_def)

lemma exponent_upper:
  assumes "0 < x"
  shows "x < pow2 (exponent x + 1)"
proof -
  have "x < 2 powr (of_int (\<lfloor>log 2 x\<rfloor> + 1))"
    using assms floor_log_eq_powr_iff [of x 2 "\<lfloor>log 2 x\<rfloor>"] by simp
  also have "\<dots> = pow2 (\<lfloor>log 2 x\<rfloor> + 1)"
    by (simp add: pow2_powr)
  also have "\<dots> \<le> pow2 (exponent x + 1)"
    using assms by (intro pow2_mono) (simp add: exponent_def)
  finally show ?thesis .
qed

lemma exponent_lower:
  assumes "0 < x" and "- 1022 < exponent x"
  shows "pow2 (exponent x) \<le> x"
proof -
  from assms have e: "exponent x = \<lfloor>log 2 x\<rfloor>"
    by (simp add: exponent_def max_def split: if_splits)
  have "2 powr (of_int \<lfloor>log 2 x\<rfloor>) \<le> x"
    using assms(1) floor_log_eq_powr_iff [of x 2 "\<lfloor>log 2 x\<rfloor>"] by simp
  then show ?thesis
    by (simp add: e pow2_powr)
qed

lemma exponent_mono:
  assumes "0 < x" and "x \<le> y"
  shows "exponent x \<le> exponent y"
proof -
  from assms have "log 2 x \<le> log 2 y" by simp
  then have "\<lfloor>log 2 x\<rfloor> \<le> \<lfloor>log 2 y\<rfloor>" by (rule floor_mono)
  with assms show ?thesis by (simp add: exponent_def)
qed

subsection \<open>The rounding is odd and monotone\<close>

lemma binary64_minus: "binary64 (- x) = - binary64 x"
  by (simp add: binary64_def round_even_minus)

lemma round_even_zero [simp]: "round_even 0 = 0"
  using round_even_of_int [of 0] by simp

lemma binary64_zero [simp]: "binary64 0 = 0"
  by (simp add: binary64_def)

lemma binary64_nonneg:
  assumes "0 \<le> x"
  shows "0 \<le> binary64 x"
proof -
  have "0 \<le> x / pow2 (exponent x - 52)"
    using assms pow2_pos [of "exponent x - 52"] by (intro divide_nonneg_pos)
  then have "round_even 0 \<le> round_even (x / pow2 (exponent x - 52))"
    by (rule round_even_mono)
  then have "(0 :: real) \<le> of_int (round_even (x / pow2 (exponent x - 52)))"
    by simp
  then show ?thesis
    unfolding binary64_def using pow2_pos [of "exponent x - 52"]
    by (intro mult_nonneg_nonneg) linarith+
qed

lemma pow2_split: "pow2 (k + 1) = pow2 53 * pow2 (k - 52)" "pow2 k = pow2 52 * pow2 (k - 52)"
  using pow2_add [of 53 "k - 52"] pow2_add [of 52 "k - 52"] by (simp_all add: add.commute)

lemma binary64_upper:
  assumes "0 < x"
  shows "binary64 x \<le> pow2 (exponent x + 1)"
proof -
  let ?u = "pow2 (exponent x - 52)"
  have upos: "0 < ?u" by (rule pow2_pos)
  have "x / ?u \<le> pow2 (exponent x + 1) / ?u"
    using exponent_upper [OF assms] upos by (intro divide_right_mono) linarith+
  also have "\<dots> = of_int (2 ^ 53)"
    unfolding pow2_split(1) using upos by (simp add: pow2_def)
  finally have "round_even (x / ?u) \<le> round_even (of_int (2 ^ 53))"
    by (rule round_even_mono)
  then have "round_even (x / ?u) \<le> 2 ^ 53"
    by (simp only: round_even_of_int)
  then have "(of_int (round_even (x / ?u)) :: real) \<le> of_int (2 ^ 53)"
    by (simp only: of_int_le_iff)
  then have "binary64 x \<le> of_int (2 ^ 53) * ?u"
    unfolding binary64_def using upos by (intro mult_right_mono) linarith+
  also have "\<dots> = pow2 (exponent x + 1)"
    unfolding pow2_split(1) by (simp add: pow2_def)
  finally show ?thesis .
qed

lemma binary64_lower:
  assumes "0 < x" and "- 1022 < exponent x"
  shows "pow2 (exponent x) \<le> binary64 x"
proof -
  let ?u = "pow2 (exponent x - 52)"
  have upos: "0 < ?u" by (rule pow2_pos)
  have "pow2 (exponent x) / ?u \<le> x / ?u"
    using exponent_lower [OF assms] upos by (intro divide_right_mono) linarith+
  moreover have "pow2 (exponent x) / ?u = of_int (2 ^ 52)"
    unfolding pow2_split(2) [of "exponent x"] using upos by (simp add: pow2_def)
  ultimately have "round_even (of_int (2 ^ 52)) \<le> round_even (x / ?u)"
    by (intro round_even_mono) simp
  then have "2 ^ 52 \<le> round_even (x / ?u)"
    by (simp only: round_even_of_int)
  then have "(of_int (2 ^ 52) :: real) \<le> of_int (round_even (x / ?u))"
    by (simp only: of_int_le_iff)
  then have "of_int (2 ^ 52) * ?u \<le> binary64 x"
    unfolding binary64_def using upos by (intro mult_right_mono) linarith+
  moreover have "of_int (2 ^ 52) * ?u = pow2 (exponent x)"
    unfolding pow2_split(2) [of "exponent x"] by (simp add: pow2_def)
  ultimately show ?thesis by simp
qed

lemma binary64_mono_pos:
  assumes "0 < x" and "x \<le> y"
  shows "binary64 x \<le> binary64 y"
proof (cases "exponent x = exponent y")
  case True
  have upos: "0 < pow2 (exponent y - 52)" by (rule pow2_pos)
  have "x / pow2 (exponent y - 52) \<le> y / pow2 (exponent y - 52)"
    using assms(2) upos by (intro divide_right_mono) linarith+
  then have "round_even (x / pow2 (exponent y - 52)) \<le> round_even (y / pow2 (exponent y - 52))"
    by (rule round_even_mono)
  then have "(of_int (round_even (x / pow2 (exponent y - 52))) :: real)
      \<le> of_int (round_even (y / pow2 (exponent y - 52)))"
    by (simp only: of_int_le_iff)
  then show ?thesis
    unfolding binary64_def True using upos by (intro mult_right_mono) linarith+
next
  case False
  with exponent_mono [OF assms] have lt: "exponent x < exponent y" by simp
  from assms have ypos: "0 < y" by simp
  from lt exponent_ge [of x] have "- 1022 < exponent y" by linarith
  with ypos have "pow2 (exponent y) \<le> binary64 y" by (rule binary64_lower)
  moreover have "binary64 x \<le> pow2 (exponent x + 1)"
    using assms(1) by (rule binary64_upper)
  moreover have "pow2 (exponent x + 1) \<le> pow2 (exponent y)"
    using lt by (intro pow2_mono) simp
  ultimately show ?thesis by linarith
qed

lemma binary64_mono:
  assumes "x \<le> y"
  shows "binary64 x \<le> binary64 y"
proof -
  consider "0 < x" | "x \<le> 0" "0 \<le> y" | "y < 0" by linarith
  then show ?thesis
  proof cases
    case 1
    then show ?thesis using assms by (rule binary64_mono_pos)
  next
    case 2
    then have "0 \<le> binary64 (- x)" "0 \<le> binary64 y"
      by (simp_all add: binary64_nonneg)
    then show ?thesis by (simp add: binary64_minus)
  next
    case 3
    with assms have "0 < - y" "- y \<le> - x" by simp_all
    then have "binary64 (- y) \<le> binary64 (- x)" by (rule binary64_mono_pos)
    then show ?thesis by (simp add: binary64_minus)
  qed
qed

lemma fl_not_NaN: "fl x \<noteq> NaN"
proof -
  have "pow2 1024 \<le> \<bar>r\<bar> \<Longrightarrow> r \<noteq> 0" for r
    using pow2_pos [of 1024] by (cases "r = 0") simp_all
  then show ?thesis
    by (auto simp: fl_def Let_def signed_inf_def)
qed

lemma fl_zero [simp]: "fl 0 = Fin 0"
  using pow2_pos [of 1024] by (simp add: fl_def not_le)

lemma fl_mono:
  assumes "x \<le> y"
  shows "\<not> js_lt (fl y) (fl x)"
proof -
  from assms have "binary64 x \<le> binary64 y" by (rule binary64_mono)
  moreover have "0 < pow2 1024" by (rule pow2_pos)
  ultimately show ?thesis
    by (auto simp: fl_def Let_def signed_inf_def abs_le_iff not_le)
qed

lemma monotone_rounding_fl: "monotone_rounding fl"
  by (simp add: monotone_rounding_def fl_not_NaN fl_mono)

lemma monotone_rounding_exact: "monotone_rounding exact"
  by (simp add: monotone_rounding_def)

subsection \<open>Evaluating a rounding\<close>

text \<open>
  When \<open>2\<^sup>k \<le> |x| < 2\<^bsup>k+1\<^esup>\<close>, the rounding of \<open>x\<close> is the multiple of \<open>2\<^bsup>k-52\<^esup>\<close>
  nearest to it.
\<close>

lemma fl_eval:
  assumes "pow2 k \<le> \<bar>x\<bar>" and "\<bar>x\<bar> < pow2 (k + 1)" and "- 1022 \<le> k" and "k \<le> 1022"
  shows "fl x = Fin (of_int (round_even (x / pow2 (k - 52))) * pow2 (k - 52))"
proof -
  have e: "exponent x = k"
    using assms(1-3) by (rule exponent_eval)
  have "binary64 x \<le> pow2 (k + 1)" and "- pow2 (k + 1) \<le> binary64 x"
  proof -
    consider "0 < x" | "x < 0" | "x = 0" by linarith
    then show "binary64 x \<le> pow2 (k + 1)"
    proof cases
      case 1
      then show ?thesis using binary64_upper [of x] by (simp add: e)
    next
      case 2
      then have "0 \<le> binary64 (- x)" by (simp add: binary64_nonneg)
      then show ?thesis using pow2_pos [of "k + 1"] by (simp add: binary64_minus)
    next
      case 3
      then show ?thesis using pow2_pos [of "k + 1"] by simp
    qed
    consider "0 < x" | "x < 0" | "x = 0" by linarith
    then show "- pow2 (k + 1) \<le> binary64 x"
    proof cases
      case 1
      then have "0 \<le> binary64 x" by (simp add: binary64_nonneg)
      then show ?thesis using pow2_pos [of "k + 1"] by linarith
    next
      case 2
      then have "binary64 (- x) \<le> pow2 (exponent (- x) + 1)"
        by (intro binary64_upper) simp
      then show ?thesis by (simp add: binary64_minus e)
    next
      case 3
      then show ?thesis using pow2_pos [of "k + 1"] by simp
    qed
  qed
  then have "\<bar>binary64 x\<bar> \<le> pow2 (k + 1)" by (simp add: abs_le_iff)
  also have "pow2 (k + 1) < pow2 1024"
    using assms(4) by (intro pow2_strict_mono) simp
  finally have "\<not> pow2 1024 \<le> \<bar>binary64 x\<bar>" by simp
  then show ?thesis
    by (simp add: fl_def Let_def binary64_def e)
qed

lemma fl_nearest:
  assumes "pow2 k \<le> \<bar>x\<bar>" and "\<bar>x\<bar> < pow2 (k + 1)" and "- 1022 \<le> k" and "k \<le> 1022"
    and "(of_int m - 1 / 2) * pow2 (k - 52) < x" and "x < (of_int m + 1 / 2) * pow2 (k - 52)"
  shows "fl x = Fin (of_int m * pow2 (k - 52))"
proof -
  have "round_even (x / pow2 (k - 52)) = m"
    using assms(5,6) pow2_pos [of "k - 52"]
    by (intro round_even_nearest) (simp_all add: pos_less_divide_eq pos_divide_less_eq)
  with fl_eval [OF assms(1-4)] show ?thesis by simp
qed

text \<open>The binades of the evaluations below.\<close>

lemmas fl_steps =
  fl_eval [where k = "- 49"] fl_eval [where k = "- 47"] fl_eval [where k = "- 7"]
  fl_eval [where k = "- 4"] fl_eval [where k = "- 3"] fl_eval [where k = "- 2"]
  fl_eval [where k = "- 1"] fl_eval [where k = 0]
  fl_eval [where k = 1] fl_eval [where k = 2] fl_eval [where k = 3] fl_eval [where k = 4]
  fl_eval [where k = 5] fl_eval [where k = 6] fl_eval [where k = 7] fl_eval [where k = 8]
  fl_eval [where k = 9]

section \<open>The correlation coefficient\<close>

lemma foldl_add_Fin:
  "foldl (\<lambda>a b. js_add exact a b) (Fin a) (map Fin xs) = Fin (a + sum_list xs)"
  by (induction xs arbitrary: a) (simp_all add: add.assoc)

lemma foldl_sq_Fin:
  "foldl (\<lambda>sum xi. js_add exact sum (js_mul exact xi xi)) (Fin a) (map Fin xs)
     = Fin (a + (\<Sum>x\<leftarrow>xs. x * x))"
  by (induction xs arbitrary: a) (simp_all add: add.assoc)

lemma foldl_prod_Fin:
  "foldl (\<lambda>sum (xi, yi). js_add exact sum (js_mul exact xi yi)) (Fin a) (zip (map Fin xs) (map Fin ys))
     = Fin (a + (\<Sum>(x, y)\<leftarrow>zip xs ys. x * y))"
proof (induction xs arbitrary: a ys)
  case Nil
  then show ?case by simp
next
  case (Cons x xs)
  then show ?case by (cases ys) (simp_all add: add.assoc)
qed

text \<open>The Cauchy-Schwarz inequality for a list of pairs.\<close>

lemma sum_list_scaled_square:
  fixes zs :: "(real \<times> real) list"
  shows "(\<Sum>(a, b)\<leftarrow>zs. (p * a - q * b)\<^sup>2)
       = p\<^sup>2 * (\<Sum>(a, b)\<leftarrow>zs. a * a) - 2 * p * q * (\<Sum>(a, b)\<leftarrow>zs. a * b)
         + q\<^sup>2 * (\<Sum>(a, b)\<leftarrow>zs. b * b)"
  by (induction zs) (auto simp: power2_eq_square algebra_simps)

lemma sum_list_squares_nonneg:
  fixes zs :: "(real \<times> real) list" and f :: "real \<Rightarrow> real \<Rightarrow> real"
  shows "0 \<le> (\<Sum>(a, b)\<leftarrow>zs. (f a b)\<^sup>2)"
  by (induction zs) auto

lemma sum_list_squares_zero:
  fixes zs :: "(real \<times> real) list"
  shows "(\<Sum>(a, b)\<leftarrow>zs. b * b) = 0 \<Longrightarrow> (\<Sum>(a, b)\<leftarrow>zs. a * b) = 0"
proof (induction zs)
  case Nil
  then show ?case by simp
next
  case (Cons z zs)
  obtain a b where z: "z = (a, b)" by (cases z)
  have nn: "0 \<le> (\<Sum>(a, b)\<leftarrow>zs. b * b)"
    by (induction zs) auto
  from Cons.prems z have "b * b + (\<Sum>(a, b)\<leftarrow>zs. b * b) = 0" by simp
  with nn have "b * b = 0" and "(\<Sum>(a, b)\<leftarrow>zs. b * b) = 0"
    using zero_le_square [of b] by linarith+
  with Cons.IH z show ?case by simp
qed

lemma cauchy_schwarz_list:
  fixes zs :: "(real \<times> real) list"
  shows "(\<Sum>(a, b)\<leftarrow>zs. a * b)\<^sup>2 \<le> (\<Sum>(a, b)\<leftarrow>zs. a * a) * (\<Sum>(a, b)\<leftarrow>zs. b * b)"
proof -
  define A where "A = (\<Sum>(a, b)\<leftarrow>zs. a * a)"
  define B where "B = (\<Sum>(a, b)\<leftarrow>zs. b * b)"
  define C where "C = (\<Sum>(a, b)\<leftarrow>zs. a * b)"
  have B0: "0 \<le> B"
    unfolding B_def by (induction zs) auto
  show ?thesis
  proof (cases "B = 0")
    case True
    then have "C = 0" unfolding B_def C_def by (rule sum_list_squares_zero)
    with True show ?thesis by (simp add: A_def B_def C_def)
  next
    case False
    with B0 have Bpos: "0 < B" by simp
    have "0 \<le> (\<Sum>(a, b)\<leftarrow>zs. (B * a - C * b)\<^sup>2)"
      by (rule sum_list_squares_nonneg)
    also have "\<dots> = B\<^sup>2 * A - 2 * B * C * C + C\<^sup>2 * B"
      by (simp add: sum_list_scaled_square A_def B_def C_def)
    also have "\<dots> = B * (A * B - C\<^sup>2)"
      by (simp add: power2_eq_square algebra_simps)
    finally have "0 \<le> A * B - C\<^sup>2"
      using Bpos by (simp add: zero_le_mult_iff)
    then show ?thesis by (simp add: A_def B_def C_def)
  qed
qed

lemma js_mul_commute: "js_mul rnd a b = js_mul rnd b a"
  by (cases a; cases b) (simp_all add: mult.commute)

lemma sum_zip_products:
  fixes zs :: "(real \<times> real) list"
  shows "(\<Sum>(a, b)\<leftarrow>zs. (n * a - p) * (n * b - q))
       = n * n * (\<Sum>(a, b)\<leftarrow>zs. a * b) - n * q * sum_list (map fst zs)
         - n * p * sum_list (map snd zs) + real (length zs) * p * q"
  by (induction zs) (auto simp: algebra_simps)

lemma sum_zip_fst_squares:
  fixes zs :: "(real \<times> real) list"
  shows "(\<Sum>(a, b)\<leftarrow>zs. (n * a - p) * (n * a - p))
       = n * n * (\<Sum>x\<leftarrow>map fst zs. x * x) - 2 * n * p * sum_list (map fst zs)
         + real (length zs) * p * p"
  by (induction zs) (auto simp: algebra_simps)

lemma sum_zip_snd_squares:
  fixes zs :: "(real \<times> real) list"
  shows "(\<Sum>(a, b)\<leftarrow>zs. (n * b - q) * (n * b - q))
       = n * n * (\<Sum>y\<leftarrow>map snd zs. y * y) - 2 * n * q * sum_list (map snd zs)
         + real (length zs) * q * q"
  by (induction zs) (auto simp: algebra_simps)

lemma covar_square_le:
  assumes len: "length xs = length ys"
  shows "(covar xs ys)\<^sup>2 \<le> spread xs * spread ys"
proof (cases "xs = []")
  case True
  with len show ?thesis by (simp add: covar_def spread_def)
next
  case False
  define n where "n = real (length xs)"
  define zs where "zs = map (\<lambda>(x, y). (n * x - sum_list xs, n * y - sum_list ys)) (zip xs ys)"
  from False have npos: "0 < n" by (simp add: n_def)
  have fst_zip: "map fst (zip xs ys) = xs" and snd_zip: "map snd (zip xs ys) = ys"
    and len_zip: "real (length (zip xs ys)) = n"
    using len by (simp_all add: n_def)
  have ab: "(\<Sum>(a, b)\<leftarrow>zs. a * b) = n * covar xs ys"
  proof -
    have "(\<Sum>(a, b)\<leftarrow>zs. a * b)
        = (\<Sum>(x, y)\<leftarrow>zip xs ys. (n * x - sum_list xs) * (n * y - sum_list ys))"
      by (simp add: zs_def comp_def case_prod_unfold)
    also have "\<dots> = n * covar xs ys"
      unfolding sum_zip_products fst_zip snd_zip len_zip
      using len by (simp add: covar_def n_def algebra_simps)
    finally show ?thesis .
  qed
  have aa: "(\<Sum>(a, b)\<leftarrow>zs. a * a) = n * spread xs"
  proof -
    have "(\<Sum>(a, b)\<leftarrow>zs. a * a)
        = (\<Sum>(x, y)\<leftarrow>zip xs ys. (n * x - sum_list xs) * (n * x - sum_list xs))"
      by (simp add: zs_def comp_def case_prod_unfold)
    also have "\<dots> = n * spread xs"
      unfolding sum_zip_fst_squares fst_zip len_zip
      by (simp add: spread_def n_def power2_eq_square algebra_simps)
    finally show ?thesis .
  qed
  have bb: "(\<Sum>(a, b)\<leftarrow>zs. b * b) = n * spread ys"
  proof -
    have "(\<Sum>(a, b)\<leftarrow>zs. b * b)
        = (\<Sum>(x, y)\<leftarrow>zip xs ys. (n * y - sum_list ys) * (n * y - sum_list ys))"
      by (simp add: zs_def comp_def case_prod_unfold)
    also have "\<dots> = n * spread ys"
      unfolding sum_zip_snd_squares snd_zip len_zip
      using len by (simp add: spread_def n_def power2_eq_square algebra_simps)
    finally show ?thesis .
  qed
  have "(n * covar xs ys)\<^sup>2 \<le> (n * spread xs) * (n * spread ys)"
    using cauchy_schwarz_list [of zs] by (simp only: ab aa bb)
  then have "n\<^sup>2 * (covar xs ys)\<^sup>2 \<le> n\<^sup>2 * (spread xs * spread ys)"
    by (simp add: power2_eq_square algebra_simps)
  with npos show ?thesis by simp
qed

lemma spread_nonneg: "0 \<le> spread xs"
proof -
  have "(\<Sum>(a, b)\<leftarrow>map (\<lambda>x. (x, 1::real)) xs. a * b)\<^sup>2
      \<le> (\<Sum>(a, b)\<leftarrow>map (\<lambda>x. (x, 1::real)) xs. a * a) * (\<Sum>(a, b)\<leftarrow>map (\<lambda>x. (x, 1::real)) xs. b * b)"
    by (rule cauchy_schwarz_list)
  moreover have "(\<Sum>(a, b)\<leftarrow>map (\<lambda>x. (x, 1::real)) xs. a * b) = sum_list xs"
    by (simp add: comp_def)
  moreover have "(\<Sum>(a, b)\<leftarrow>map (\<lambda>x. (x, 1::real)) xs. a * a) = (\<Sum>x\<leftarrow>xs. x * x)"
    by (simp add: comp_def)
  moreover have "(\<Sum>(a, b)\<leftarrow>map (\<lambda>x. (x, 1::real)) xs. b * b) = real (length xs)"
    by (induction xs) simp_all
  ultimately show ?thesis by (simp add: spread_def mult.commute)
qed

lemma calculateCorrelation_finite:
  assumes "length xs = length ys" and "xs \<noteq> []"
  shows "calculateCorrelation exact (map Fin xs) (map Fin ys)
       = (if spread xs * spread ys = 0 then Fin 0
          else Fin (covar xs ys / sqrt (spread xs * spread ys)))"
proof -
  have nn: "0 \<le> spread xs * spread ys"
    by (simp add: spread_nonneg)
  have sx: "js_sub exact (js_mul exact (Fin (real (length xs))) (Fin (\<Sum>x\<leftarrow>xs. x * x)))
              (js_mul exact (Fin (sum_list xs)) (Fin (sum_list xs))) = Fin (spread xs)"
    by (simp add: js_sub_def spread_def power2_eq_square)
  from assms have len: "length ys = length xs" by simp
  have sy: "js_sub exact (js_mul exact (Fin (real (length xs))) (Fin (\<Sum>y\<leftarrow>ys. y * y)))
              (js_mul exact (Fin (sum_list ys)) (Fin (sum_list ys))) = Fin (spread ys)"
    by (simp add: js_sub_def spread_def power2_eq_square len)
  have cv: "js_sub exact (js_mul exact (Fin (real (length xs))) (Fin (\<Sum>(x, y)\<leftarrow>zip xs ys. x * y)))
              (js_mul exact (Fin (sum_list xs)) (Fin (sum_list ys))) = Fin (covar xs ys)"
    by (simp add: js_sub_def covar_def)
  have "calculateCorrelation exact (map Fin xs) (map Fin ys)
      = (if num_strict_eq (Math_sqrt exact (js_mul exact (Fin (spread xs)) (Fin (spread ys)))) (Fin 0)
         then Fin 0
         else js_div exact (Fin (covar xs ys)) (Math_sqrt exact (js_mul exact (Fin (spread xs)) (Fin (spread ys)))))"
    using len assms(2)
    by (simp add: calculateCorrelation_def Let_def foldl_add_Fin foldl_sq_Fin foldl_prod_Fin
        sx sy cv del: js_mul.simps)
  also have "\<dots> = (if spread xs * spread ys = 0 then Fin 0
          else Fin (covar xs ys / sqrt (spread xs * spread ys)))"
    using nn by (simp add: num_strict_eq_def)
  finally show ?thesis .
qed

lemma calculateCorrelation_trivial:
  "length x \<noteq> length y \<or> x = [] \<Longrightarrow> calculateCorrelation exact x y = Fin 0"
  by (auto simp: calculateCorrelation_def)

lemma ratio_bounded:
  fixes c d :: real
  assumes "c\<^sup>2 \<le> d" and "d \<noteq> 0"
  shows "- 1 \<le> c / sqrt d" and "c / sqrt d \<le> 1"
proof -
  from assms have dpos: "0 < d"
    using zero_le_power2 [of c] by linarith
  then have spos: "0 < sqrt d" by simp
  have "\<bar>c\<bar> \<le> sqrt d"
    using assms(1) by (metis real_sqrt_abs real_sqrt_le_iff)
  then have "- sqrt d \<le> c" and "c \<le> sqrt d"
    by linarith+
  with spos show "- 1 \<le> c / sqrt d" and "c / sqrt d \<le> 1"
    by (simp_all add: pos_le_divide_eq pos_divide_le_eq)
qed

text \<open>
  In exact arithmetic \<open>calculateCorrelation\<close> does what its guards are written for:
  on arrays of finite values it returns 0 when the arrays differ in length, when they
  are empty and when the product \<open>(n\<Sigma>x\<^sup>2 - (\<Sigma>x)\<^sup>2)(n\<Sigma>y\<^sup>2 - (\<Sigma>y)\<^sup>2)\<close> under the
  square root is zero, and its result is never \<open>NaN\<close>.
\<close>

lemma calculateCorrelation_exact_degenerate:
  "(length xs \<noteq> length ys \<or> xs = [] \<or> spread xs * spread ys = 0
      \<longrightarrow> calculateCorrelation exact (map Fin xs) (map Fin ys) = Fin 0)
   \<and> calculateCorrelation exact (map Fin xs) (map Fin ys) \<noteq> NaN"
proof (cases "length xs \<noteq> length ys \<or> xs = []")
  case True
  then have "calculateCorrelation exact (map Fin xs) (map Fin ys) = Fin 0"
    by (intro calculateCorrelation_trivial) auto
  then show ?thesis by simp
next
  case False
  then show ?thesis
    by (simp add: calculateCorrelation_finite)
qed

text \<open>
  In exact arithmetic the result lies between -1 and 1, by the Cauchy-Schwarz
  inequality, and is 0 when one of the arrays has no variance.
\<close>

lemma calculateCorrelation_exact_range:
  "(\<exists>r. calculateCorrelation exact (map Fin xs) (map Fin ys) = Fin r \<and> - 1 \<le> r \<and> r \<le> 1)
   \<and> (length xs \<noteq> length ys \<or> xs = [] \<or> spread xs = 0 \<or> spread ys = 0
        \<longrightarrow> calculateCorrelation exact (map Fin xs) (map Fin ys) = Fin 0)"
proof (cases "length xs \<noteq> length ys \<or> xs = []")
  case True
  then have "calculateCorrelation exact (map Fin xs) (map Fin ys) = Fin 0"
    by (intro calculateCorrelation_trivial) auto
  then show ?thesis by simp
next
  case False
  then have len: "length xs = length ys" and ne: "xs \<noteq> []" by simp_all
  show ?thesis
  proof (cases "spread xs * spread ys = 0")
    case True
    with len ne show ?thesis by (auto simp: calculateCorrelation_finite)
  next
    case nz: False
    from covar_square_le [OF len] nz
    have "- 1 \<le> covar xs ys / sqrt (spread xs * spread ys)"
      and "covar xs ys / sqrt (spread xs * spread ys) \<le> 1"
      by (rule ratio_bounded)+
    with len ne nz show ?thesis by (auto simp: calculateCorrelation_finite)
  qed
qed

text \<open>
  Claim C3 fails on the code, which computes in binary64. The array
  \<open>[1.3, 1.3, 1.3]\<close> has no variance, so the product under the square root is zero in
  exact arithmetic; rounded, \<open>n * sumXX - sumX * sumX\<close> is \<open>-2\<^bsup>-49\<^esup>\<close>, the product is
  negative, its square root is \<open>NaN\<close>, the test \<open>denominator === 0\<close> is false, and
  \<open>calculateCorrelation([1.3, 1.3, 1.3], [0, 1, 2])\<close> returns \<open>NaN\<close>.
\<close>

theorem calculateCorrelation_constant_array:
  "calculateCorrelation fl (map fl [13 / 10, 13 / 10, 13 / 10]) (map fl [0, 1, 2]) = NaN"
  by (simp add: calculateCorrelation_def Let_def js_sub_def num_strict_eq_def
      fl_steps pow2_def round_even_def)

theorem calculateCorrelation_constant_array_witness:
  "spread [13 / 10, 13 / 10, 13 / 10] = 0
   \<and> calculateCorrelation fl (map fl [13 / 10, 13 / 10, 13 / 10]) (map fl [0, 1, 2]) \<noteq> Fin 0"
  using calculateCorrelation_constant_array by (simp add: spread_def power2_eq_square)

text \<open>The square root that the next evaluation takes.\<close>

lemma sqrt_step:
  "fl (sqrt (1103381908705771 / 562949953421312)) = Fin (6305039478318693 / 4503599627370496)"
proof -
  let ?q = "1103381908705771 / 562949953421312 :: real"
  have lo: "(of_int 6305039478318693 - 1 / 2) * pow2 (0 - 52) < sqrt ?q"
    by (rule real_less_rsqrt) (simp add: pow2_def power2_eq_square)
  have hi: "sqrt ?q < (of_int 6305039478318693 + 1 / 2) * pow2 (0 - 52)"
    by (rule real_less_lsqrt) (simp_all add: pow2_def power2_eq_square)
  have one: "pow2 0 \<le> \<bar>sqrt ?q\<bar>"
    by (simp add: pow2_def)
  have two: "\<bar>sqrt ?q\<bar> < pow2 (0 + 1)"
    using real_less_lsqrt [of 2 ?q] by (simp add: pow2_def)
  from fl_nearest [OF one two _ _ lo hi] show ?thesis
    by (simp add: pow2_def)
qed

text \<open>
  Claim C4 fails on the code, which computes in binary64:
  \<open>calculateCorrelation([0, 1], [0.1, 1.5])\<close> returns \<open>1 + 2\<^bsup>-52\<^esup>\<close>, that is
  1.0000000000000002, above 1.
\<close>

theorem calculateCorrelation_above_one:
  "calculateCorrelation fl (map fl [0, 1]) (map fl [1 / 10, 3 / 2])
     = Fin (4503599627370497 / 4503599627370496)"
  by (simp add: calculateCorrelation_def Let_def js_sub_def num_strict_eq_def
      fl_steps sqrt_step pow2_def round_even_def)

theorem calculateCorrelation_above_one_witness:
  "js_lt (Fin 1) (calculateCorrelation fl (map fl [0, 1]) (map fl [1 / 10, 3 / 2]))"
  using calculateCorrelation_above_one by simp

lemma foldl_products_swap:
  "foldl (\<lambda>sum (xi, yi). js_add rnd sum (js_mul rnd xi yi)) a (zip x y)
     = foldl (\<lambda>sum (xi, yi). js_add rnd sum (js_mul rnd xi yi)) a (zip y x)"
proof (induction x arbitrary: a y)
  case Nil
  then show ?case by simp
next
  case (Cons x1 x)
  then show ?case by (cases y) (simp_all add: js_mul_commute)
qed

text \<open>
  Claim C8. \<open>calculateCorrelation(x, y)\<close> equals \<open>calculateCorrelation(y, x)\<close>, for
  arrays of any numbers and of any lengths, and under every rounding, that of binary64
  included: the proof uses only that \<open>*\<close> is commutative.
\<close>

theorem calculateCorrelation_symmetric:
  "calculateCorrelation rnd x y = calculateCorrelation rnd y x"
proof (cases "length x = length y")
  case True
  then have len: "length y = length x" by simp
  show ?thesis
    unfolding calculateCorrelation_def Let_def foldl_products_swap [of _ _ x y] len
    by (simp add: js_mul_commute del: js_mul.simps)
next
  case False
  then show ?thesis by (simp add: calculateCorrelation_def)
qed

theorem calculateCorrelation_symmetric_witness:
  "calculateCorrelation fl [Fin 1, Fin 2] [Fin 1, Fin 3] = calculateCorrelation fl [Fin 1, Fin 3] [Fin 1, Fin 2]
   \<and> calculateCorrelation fl [Fin 1, Fin 2] [Fin 1, Fin 3] = Fin 1"
proof -
  have "calculateCorrelation fl [Fin 1, Fin 2] [Fin 1, Fin 3] = Fin 1"
    by (simp add: calculateCorrelation_def Let_def js_sub_def num_strict_eq_def
        fl_steps pow2_def round_even_def)
  with calculateCorrelation_symmetric [of fl "[Fin 1, Fin 2]" "[Fin 1, Fin 3]"] show ?thesis
    by simp
qed

section \<open>Year comparison\<close>

lemma get_record: "get \<lparr>month = m, props = ps\<rparr> k = (case map_of ps k of None \<Rightarrow> Undefined | Some v \<Rightarrow> v)"
  by (simp add: get_def)

lemma or_zero_zero_if_missing: "or_zero (zero_if_missing v) = or_zero v"
  by (cases v rule: zero_if_missing.cases) simp_all

lemma to_number_zero_if_missing: "to_number (zero_if_missing v) = or_zero v"
  by (cases v rule: zero_if_missing.cases) simp_all

lemma get_zero_filled:
  "get (zero_filled d) key =
     (if key \<in> set [''temp'', ''rainfall'', ''humidity'', ''sunshine'']
      then zero_if_missing (get d key) else get d key)"
  by (simp add: zero_filled_def get_def)

lemma year_records_zero_filled:
  "year_records (map zero_filled records) y = map zero_filled (year_records records y)"
  by (simp add: year_records_def filter_map comp_def get_zero_filled)

lemma compare_metric_zero_filled:
  "metric \<in> set [''temp'', ''rainfall'', ''humidity'', ''sunshine''] \<Longrightarrow>
   compare_metric rnd (map zero_filled data1) (map zero_filled data2) metric
     = compare_metric rnd data1 data2 metric"
  by (simp add: compare_metric_def foldl_map get_zero_filled or_zero_zero_if_missing)

lemma getYearComparison_year_records:
  "getYearComparison rnd (Some records) y1 y2 =
     (if year_records records y1 = [] \<or> year_records records y2 = [] then None
      else Some \<lparr> year1 = y1, year2 = y2,
                  differences = map (\<lambda>metric. (metric,
                    compare_metric rnd (year_records records y1) (year_records records y2) metric))
                    [''temp'', ''rainfall'', ''humidity'', ''sunshine''] \<rparr>)"
  unfolding getYearComparison_def year_records_def Let_def by simp

lemma getYearComparison_zero_filled:
  "getYearComparison rnd (Some (map zero_filled records)) y1 y2
     = getYearComparison rnd (Some records) y1 y2"
  unfolding getYearComparison_year_records year_records_zero_filled
  by (simp add: compare_metric_zero_filled)

lemma year_mean_missing_as_zero:
  "js_div rnd (foldl (\<lambda>sum d. js_add rnd sum (or_zero (get d metric))) (Fin 0) ds)
          (Fin (real (length ds)))
     = mean_missing_as_zero rnd ds metric"
  by (simp add: mean_missing_as_zero_def rounded_mean_def foldl_map to_number_zero_if_missing)

lemma map_of_keyed:
  "k \<in> set ks \<Longrightarrow> map_of (map (\<lambda>k. (k, f k)) ks) k = Some (f k)"
  by (induction ks) auto

text \<open>
  Claim C1, as amended. \<open>getYearComparison\<close> does not filter a missing value of a
  metric out: it counts it as zero. Under every rounding of the arithmetic, that of
  binary64 included, the result of a comparison is the one that \<open>getYearComparison\<close>
  gives on the records with each missing value replaced by 0, and the mean it reports
  for a year is the mean over all the records of that year, each missing value counted
  as 0: the sum of the values, added from left to right, divided by the number of the
  records.
\<close>

theorem getYearComparison_missing_as_zero:
  assumes cmp: "getYearComparison rnd (Some records) y1 y2 = Some c"
    and metric: "metric \<in> set [''temp'', ''rainfall'', ''humidity'', ''sunshine'']"
  shows "getYearComparison rnd (Some (map zero_filled records)) y1 y2 = Some c
     \<and> (\<exists>m. map_of (differences c) metric = Some m
          \<and> year1_mean m = mean_missing_as_zero rnd (year_records records y1) metric
          \<and> year2_mean m = mean_missing_as_zero rnd (year_records records y2) metric)"
proof -
  let ?d1 = "year_records records y1" and ?d2 = "year_records records y2"
  from cmp have ne: "?d1 \<noteq> []" "?d2 \<noteq> []"
    unfolding getYearComparison_year_records by (simp_all split: if_splits)
  with cmp have "differences c = map (\<lambda>metric. (metric, compare_metric rnd ?d1 ?d2 metric))
                    [''temp'', ''rainfall'', ''humidity'', ''sunshine'']"
    unfolding getYearComparison_year_records by auto
  then have "map_of (differences c) metric = Some (compare_metric rnd ?d1 ?d2 metric)"
    using metric by (simp only: map_of_keyed)
  moreover have "year1_mean (compare_metric rnd ?d1 ?d2 metric) = mean_missing_as_zero rnd ?d1 metric"
    by (simp add: compare_metric_def Let_def year_mean_missing_as_zero)
  moreover have "year2_mean (compare_metric rnd ?d1 ?d2 metric) = mean_missing_as_zero rnd ?d2 metric"
    by (simp add: compare_metric_def Let_def year_mean_missing_as_zero)
  moreover have "getYearComparison rnd (Some (map zero_filled records)) y1 y2 = Some c"
    using cmp by (simp only: getYearComparison_zero_filled)
  ultimately show ?thesis by simp
qed

theorem getYearComparison_missing_as_zero_witness:
  "''temp'' \<in> set [''temp'', ''rainfall'', ''humidity'', ''sunshine'']
   \<and> mean_missing_as_zero fl (year_records thirds (Num (Fin 2020))) ''temp''
       = Fin (6004799503160661 / 18014398509481984)
   \<and> mean_missing_as_zero fl (year_records thirds (Num (Fin 2021))) ''temp'' = Fin 1
   \<and> (\<exists>c m. getYearComparison fl (Some thirds) (Num (Fin 2020)) (Num (Fin 2021)) = Some c
         \<and> getYearComparison fl (Some (map zero_filled thirds)) (Num (Fin 2020)) (Num (Fin 2021)) = Some c
         \<and> map_of (differences c) ''temp'' = Some m
         \<and> year1_mean m = Fin (6004799503160661 / 18014398509481984)
         \<and> year2_mean m = Fin 1)"
proof -
  have h2: "''temp'' \<in> set [''temp'', ''rainfall'', ''humidity'', ''sunshine'']"
    by simp
  have m1: "mean_missing_as_zero fl (year_records thirds (Num (Fin 2020))) ''temp''
       = Fin (6004799503160661 / 18014398509481984)"
    by (simp add: thirds_def mean_missing_as_zero_def year_records_def rounded_mean_def
        num_strict_eq_def get_record fl_steps pow2_def round_even_def)
  have m2: "mean_missing_as_zero fl (year_records thirds (Num (Fin 2021))) ''temp'' = Fin 1"
    by (simp add: thirds_def mean_missing_as_zero_def year_records_def rounded_mean_def
        num_strict_eq_def get_record fl_steps pow2_def round_even_def)
  have "getYearComparison fl (Some thirds) (Num (Fin 2020)) (Num (Fin 2021)) \<noteq> None"
    by (simp add: getYearComparison_year_records thirds_def year_records_def num_strict_eq_def
        get_record)
  then obtain c where h1: "getYearComparison fl (Some thirds) (Num (Fin 2020)) (Num (Fin 2021)) = Some c"
    by blast
  from getYearComparison_missing_as_zero [OF h1 h2] h1 h2 m1 m2 show ?thesis
    by auto
qed

text \<open>
  Claim C1, as stated, fails: of the two records of 2020 in \<open>two_years\<close> one has
  \<open>temp\<close> 8 and the other has none; the mean over the values that are present is 8, and
  \<open>getYearComparison\<close> reports 4. Every number of this evaluation is a binary64 number.
\<close>

theorem getYearComparison_mean_counterexample:
  "getYearComparison fl (Some two_years) (Num (Fin 2020)) (Num (Fin 2021))
     = Some \<lparr>year1 = Num (Fin 2020), year2 = Num (Fin 2021),
         differences =
           [(''temp'', \<lparr>year1_mean = Fin 4, year2_mean = Fin 6, difference = Fin 2,
                        percentChange = Fin 50\<rparr>),
            (''rainfall'', \<lparr>year1_mean = Fin 100, year2_mean = Fin 100, difference = Fin 0,
                            percentChange = Fin 0\<rparr>),
            (''humidity'', \<lparr>year1_mean = Fin 80, year2_mean = Fin 80, difference = Fin 0,
                            percentChange = Fin 0\<rparr>),
            (''sunshine'', \<lparr>year1_mean = Fin 50, year2_mean = Fin 50, difference = Fin 0,
                            percentChange = Fin 0\<rparr>)]\<rparr>
   \<and> mean_of_present fl (year_records two_years (Num (Fin 2020))) ''temp'' = Fin 8"
  by (simp add: two_years_def getYearComparison_def compare_metric_def num_strict_eq_def
      js_sub_def Let_def get_record mean_of_present_def year_records_def calculateAverage_def
      present_def fl_steps pow2_def round_even_def)

section \<open>Temperature statistics\<close>

lemma finite_value_SomeD: "finite_value v = Some a \<Longrightarrow> v = Num (Fin a)"
  by (cases v rule: finite_value.cases) simp_all

















text \<open>Without rounding, the mean of \<open>n\<close> copies of a number is the number.\<close>

lemma foldl_add_copies:
  "foldl (\<lambda>sum x. js_add exact sum (Fin x)) (Fin a) (replicate n v) = Fin (a + real n * v)"
  by (induction n arbitrary: a) (simp_all add: algebra_simps)

lemma mean_of_copies_exact:
  "0 < n \<Longrightarrow> mean_of_copies exact n v = Fin v"
  using foldl_add_copies [of 0 n v] foldl_map [of "js_add exact" "Fin 0" Fin "replicate n v"]
  by (simp add: mean_of_copies_def rounded_mean_def)





text \<open>
  Claim C2 fails on the code: the record of \<open>no_temperatures\<close> has none of \<open>temp\<close>,
  \<open>tempMin\<close>, \<open>tempMax\<close>, and \<open>calculateTemperatureStats\<close> returns an object, not
  \<open>null\<close>, whose \<open>max\<close> is \<open>-Infinity\<close>, whose \<open>min\<close> is \<open>Infinity\<close> and whose
  \<open>range\<close> is \<open>-Infinity\<close>, under every rounding.
\<close>

theorem calculateTemperatureStats_no_temperatures:
  "calculateTemperatureStats rnd (Some no_temperatures)
     = Some \<lparr>average = Fin 0, max' = NInf, min' = PInf, range' = NInf,
              hottestMonth = None, coldestMonth = None\<rparr>"
  by (simp add: no_temperatures_def calculateTemperatureStats_def calculateAverage_def
      Math_max_def Math_min_def present_def find_month_def js_sub_def get_record)

section \<open>Yearly aggregates\<close>

lemma foldl_metric_sum:
  "\<forall>d\<in>set ds. finite_value (get d metric) \<noteq> None \<Longrightarrow>
   foldl (\<lambda>sum d. js_add exact sum (to_number (get d metric))) (Fin a) ds
     = Fin (a + sum_list (present_values ds metric))"
proof (induction ds arbitrary: a)
  case Nil
  then show ?case by (simp add: present_values_def map_filter_simps)
next
  case (Cons d ds)
  then obtain b where b: "finite_value (get d metric) = Some b" by auto
  then have "get d metric = Num (Fin b)" by (rule finite_value_SomeD)
  with Cons b show ?case
    by (simp add: present_values_def map_filter_simps add.assoc)
qed

lemma length_present_values:
  "\<forall>d\<in>set ds. finite_value (get d metric) \<noteq> None \<Longrightarrow>
   length (present_values ds metric) = length ds"
  by (induction ds) (auto simp: present_values_def map_filter_simps)

lemma calculateAverage_metric:
  assumes "\<forall>d\<in>set ds. finite_value (get d metric) \<noteq> None"
  shows "calculateAverage exact (map (\<lambda>d. get d metric) ds)
       = Fin (sum_list (present_values ds metric) / real (length ds))"
proof -
  have "foldl (\<lambda>sum val. js_add exact sum (to_number val)) (Fin a) (map (\<lambda>d. get d metric) ds)
      = foldl (\<lambda>sum d. js_add exact sum (to_number (get d metric))) (Fin a) ds" for a
    by (simp add: foldl_map)
  with assms show ?thesis
    by (simp add: calculateAverage_def foldl_metric_sum present_values_def map_filter_simps)
qed

lemma set_Set_spread: "set (Set_spread vs) = set vs"
  by (simp add: Set_spread_def)

lemma distinct_Set_spread: "distinct (Set_spread vs)"
  by (simp add: Set_spread_def)

text \<open>
  On records that carry all four metrics as finite numbers, \<open>calculateYearlyAggregates\<close>
  returns one row for each distinct year, and the row of a year holds, in exact
  arithmetic, the rounded sums and means of the records of that year.
\<close>

lemma calculateYearlyAggregates_complete:
  assumes "\<forall>d\<in>set yearlyData. complete_metrics d"
  shows "distinct (map year (calculateYearlyAggregates exact yearlyData))"
    and "set (map year (calculateYearlyAggregates exact yearlyData)) = (\<lambda>d. get d ''year'') ` set yearlyData"
    and "\<forall>row\<in>set (calculateYearlyAggregates exact yearlyData).
           totalRainfall row
             = Fin (round_nearest (sum_list (present_values (year_records yearlyData (year row)) ''rainfall'')))
         \<and> avgTemp row
             = Fin (round_1dp (sum_list (present_values (year_records yearlyData (year row)) ''temp'')
                                / real (length (year_records yearlyData (year row)))))
         \<and> avgHumidity row
             = Fin (round_nearest (sum_list (present_values (year_records yearlyData (year row)) ''humidity'')
                                / real (length (year_records yearlyData (year row)))))
         \<and> totalSunshine row
             = Fin (round_1dp (sum_list (present_values (year_records yearlyData (year row)) ''sunshine'')))"
proof -
  have years: "map year (calculateYearlyAggregates exact yearlyData)
      = Set_spread (map (\<lambda>d. get d ''year'') yearlyData)"
    by (simp add: calculateYearlyAggregates_def Let_def comp_def)
  show "distinct (map year (calculateYearlyAggregates exact yearlyData))"
    unfolding years by (rule distinct_Set_spread)
  show "set (map year (calculateYearlyAggregates exact yearlyData)) = (\<lambda>d. get d ''year'') ` set yearlyData"
    unfolding years by (simp add: set_Set_spread)
  have fin: "\<forall>d\<in>set (year_records yearlyData y). finite_value (get d metric) \<noteq> None"
    if "metric \<in> {''rainfall'', ''temp'', ''humidity'', ''sunshine''}" for y metric
    using assms that by (auto simp: year_records_def complete_metrics_def)
  show "\<forall>row\<in>set (calculateYearlyAggregates exact yearlyData).
           totalRainfall row
             = Fin (round_nearest (sum_list (present_values (year_records yearlyData (year row)) ''rainfall'')))
         \<and> avgTemp row
             = Fin (round_1dp (sum_list (present_values (year_records yearlyData (year row)) ''temp'')
                                / real (length (year_records yearlyData (year row)))))
         \<and> avgHumidity row
             = Fin (round_nearest (sum_list (present_values (year_records yearlyData (year row)) ''humidity'')
                                / real (length (year_records yearlyData (year row)))))
         \<and> totalSunshine row
             = Fin (round_1dp (sum_list (present_values (year_records yearlyData (year row)) ''sunshine'')))"
    unfolding calculateYearlyAggregates_def Let_def year_records_def [symmetric]
    by (auto simp: foldl_metric_sum [OF fin] calculateAverage_metric [OF fin]
        round_nearest_def round_1dp_def)
qed

text \<open>
  Claim C6 fails on the code: the record of \<open>no_rainfall\<close> has no \<open>rainfall\<close>, the sum
  \<open>0 + undefined\<close> is \<open>NaN\<close>, and the row of 2020 has \<open>totalRainfall\<close> \<open>NaN\<close>, where the
  sum of the rainfall values of the year, rounded, is 0.
\<close>

theorem calculateYearlyAggregates_no_rainfall:
  "calculateYearlyAggregates fl no_rainfall
     = [\<lparr>year = Num (Fin 2020), totalRainfall = NaN, avgTemp = Fin 10, avgHumidity = Fin 70,
         totalSunshine = Fin 100\<rparr>]
   \<and> round_nearest (sum_list (present_values (year_records no_rainfall (Num (Fin 2020))) ''rainfall'')) = 0"
  by (simp add: no_rainfall_def calculateYearlyAggregates_def Set_spread_def calculateAverage_def
      num_strict_eq_def get_record present_values_def year_records_def map_filter_simps
      round_nearest_def fl_steps pow2_def round_even_def)

section \<open>Anomalies\<close>

lemma Math_sqrt_cases:
  assumes "monotone_rounding rnd"
  shows "Math_sqrt rnd v = NaN \<or> Math_sqrt rnd v = PInf \<or> (\<exists>s\<ge>0. Math_sqrt rnd v = Fin s)"
proof (cases v)
  case (Fin a)
  show ?thesis
  proof (cases "a < 0")
    case True
    with Fin show ?thesis by simp
  next
    case False
    then have "0 \<le> sqrt a" by simp
    with assms have "\<not> js_lt (rnd (sqrt a)) (Fin 0)" and "rnd (sqrt a) \<noteq> NaN"
      by (auto simp: monotone_rounding_def dest: spec [of _ 0])
    then have "rnd (sqrt a) = PInf \<or> (\<exists>s\<ge>0. rnd (sqrt a) = Fin s)"
      by (cases "rnd (sqrt a)") auto
    with Fin False show ?thesis by auto
  qed
qed simp_all

lemma js_lt_below:
  assumes "\<not> js_lt c b" and "b \<noteq> NaN" and "c \<noteq> NaN" and "js_lt c a"
  shows "js_lt b a"
  using assms by (cases a; cases b; cases c) auto

lemma threshold_mono:
  assumes rnd: "monotone_rounding rnd" and le: "t1 \<le> t2"
    and sd: "sd = NaN \<or> sd = PInf \<or> (\<exists>s\<ge>0. sd = Fin s)"
    and gt: "js_gt a (js_mul rnd (Fin t2) sd)"
  shows "js_gt a (js_mul rnd (Fin t1) sd)"
proof -
  from sd consider "sd = NaN" | "sd = PInf" | s where "0 \<le> s" "sd = Fin s" by blast
  then show ?thesis
  proof cases
    case 1
    with gt show ?thesis by (simp add: js_gt_def)
  next
    case 2
    with gt le show ?thesis
      by (cases a) (auto simp: js_gt_def signed_inf_def split: if_splits)
  next
    case 3
    from le \<open>0 \<le> s\<close> have "t1 * s \<le> t2 * s"
      by (rule mult_right_mono)
    with rnd have "\<not> js_lt (rnd (t2 * s)) (rnd (t1 * s))"
      and "rnd (t1 * s) \<noteq> NaN" and "rnd (t2 * s) \<noteq> NaN"
      by (simp_all add: monotone_rounding_def)
    moreover from gt 3 have "js_lt (rnd (t2 * s)) a"
      by (simp add: js_gt_def)
    ultimately have "js_lt (rnd (t1 * s)) a"
      by (rule js_lt_below)
    with 3 show ?thesis by (simp add: js_gt_def)
  qed
qed

lemma length_filter_mono:
  "(\<And>x. x \<in> set xs \<Longrightarrow> P x \<Longrightarrow> Q x) \<Longrightarrow> length (filter P xs) \<le> length (filter Q xs)"
  by (induction xs) auto

text \<open>
  Claim C9. For finite thresholds \<open>t1 \<le> t2\<close>, every record that \<open>detectAnomalies\<close>
  returns with \<open>t2\<close> it returns with \<open>t1\<close>, and it returns no more records with \<open>t2\<close>
  than with \<open>t1\<close>. This holds under every monotone rounding, that of binary64 included.
\<close>

theorem detectAnomalies_antitone:
  assumes "monotone_rounding rnd" and "t1 \<le> t2"
  shows "set (detectAnomalies rnd data metric (Fin t2)) \<subseteq> set (detectAnomalies rnd data metric (Fin t1))
       \<and> length (detectAnomalies rnd data metric (Fin t2))
           \<le> length (detectAnomalies rnd data metric (Fin t1))"
proof -
  define vals where "vals = filter present (map (\<lambda>d. get d metric) data)"
  define mean where "mean = calculateAverage rnd vals"
  define stdDev where "stdDev = Math_sqrt rnd (calculateAverage rnd
            (map (\<lambda>v. Num (Math_pow rnd (js_sub rnd (to_number v) mean) 2)) vals))"
  define dev where "dev = (\<lambda>d. Math_abs (js_sub rnd (to_number (get d metric)) mean))"
  have da: "detectAnomalies rnd data metric t
      = filter (\<lambda>d. js_gt (dev d) (js_mul rnd t stdDev)) data" for t
    by (simp add: detectAnomalies_def Let_def vals_def mean_def stdDev_def dev_def)
  have sd: "stdDev = NaN \<or> stdDev = PInf \<or> (\<exists>s\<ge>0. stdDev = Fin s)"
    unfolding stdDev_def using assms(1) by (rule Math_sqrt_cases)
  have step: "js_gt (dev d) (js_mul rnd (Fin t1) stdDev)"
    if "js_gt (dev d) (js_mul rnd (Fin t2) stdDev)" for d
    using assms sd that by (rule threshold_mono)
  have "set (detectAnomalies rnd data metric (Fin t2)) \<subseteq> set (detectAnomalies rnd data metric (Fin t1))"
    unfolding da using step by auto
  moreover have "length (detectAnomalies rnd data metric (Fin t2))
      \<le> length (detectAnomalies rnd data metric (Fin t1))"
    unfolding da by (rule length_filter_mono) (rule step)
  ultimately show ?thesis ..
qed

theorem detectAnomalies_antitone_witness:
  "monotone_rounding fl \<and> (1 / 2 :: real) \<le> 2
   \<and> set (detectAnomalies fl one_three ''temp'' (Fin 2))
       \<subseteq> set (detectAnomalies fl one_three ''temp'' (Fin (1 / 2)))
   \<and> length (detectAnomalies fl one_three ''temp'' (Fin 2))
       \<le> length (detectAnomalies fl one_three ''temp'' (Fin (1 / 2)))
   \<and> detectAnomalies fl one_three ''temp'' (Fin 2) = []
   \<and> detectAnomalies fl one_three ''temp'' (Fin (1 / 2)) = one_three"
proof -
  have h: "(1 / 2 :: real) \<le> 2" by simp
  have e2: "detectAnomalies fl one_three ''temp'' (Fin 2) = []"
    by (simp add: one_three_def detectAnomalies_def calculateAverage_def present_def js_sub_def
        js_gt_def eval_nat_numeral get_record fl_steps pow2_def round_even_def)
  have e1: "detectAnomalies fl one_three ''temp'' (Fin (1 / 2)) = one_three"
    by (simp add: one_three_def detectAnomalies_def calculateAverage_def present_def js_sub_def
        js_gt_def eval_nat_numeral get_record fl_steps pow2_def round_even_def)
  from detectAnomalies_antitone [OF monotone_rounding_fl h, of one_three "''temp''"]
    monotone_rounding_fl h e1 e2
  show ?thesis by simp
qed

section \<open>Search by criteria\<close>

lemma matches_satisfies:
  "c \<noteq> Value Null \<Longrightarrow> matches record (key, c) = Inr (satisfies record (key, c))"
proof (cases c)
  case (Value v)
  assume "c \<noteq> Value Null"
  with Value show ?thesis by (cases v) simp_all
next
  case (Object obj)
  then show ?thesis by (simp add: Let_def js_ge_def)
qed

lemma every_satisfies:
  "\<forall>e\<in>set criteria. snd e \<noteq> Value Null \<Longrightarrow>
   every record criteria = Inr (\<forall>e\<in>set criteria. satisfies record e)"
proof (induction criteria)
  case Nil
  then show ?case by simp
next
  case (Cons e criteria)
  obtain key c where e: "e = (key, c)" by (cases e)
  with Cons.prems have "matches record e = Inr (satisfies record e)"
    by (simp add: matches_satisfies)
  with Cons show ?case by (cases "satisfies record e") simp_all
qed

lemma filter_every_satisfies:
  "\<forall>e\<in>set criteria. snd e \<noteq> Value Null \<Longrightarrow>
   filter_every criteria records
     = Inr (filter (\<lambda>record. \<forall>e\<in>set criteria. satisfies record e) records)"
  by (induction records) (simp_all add: every_satisfies)

lemma searchData_without_null:
  assumes "\<forall>e\<in>set criteria. snd e \<noteq> Value Null"
  shows "searchData (Some records) criteria
       = Inr (filter (\<lambda>record. \<forall>e\<in>set criteria. satisfies record e) records)"
  using assms by (simp add: searchData_def filter_every_satisfies)

lemma half_range_unsatisfied:
  "half_range c \<Longrightarrow> matches record (key, c) = Inr False \<and> \<not> satisfies record (key, c)"
  by (cases c) (auto simp: half_range_def)

lemma searchData_half_range_without_null:
  assumes "(key, c) \<in> set criteria" and "half_range c"
    and "\<forall>e\<in>set criteria. snd e \<noteq> Value Null"
  shows "searchData yearly criteria = Inr []"
proof (cases yearly)
  case None
  then show ?thesis by (simp add: searchData_def)
next
  case (Some records)
  from assms(1,2) have "\<not> (\<forall>e\<in>set criteria. satisfies r e)" for r
    using half_range_unsatisfied [of c r key] by blast
  with Some assms(3) show ?thesis
    by (simp add: searchData_without_null)
qed

text \<open>Whatever the other criteria are, a criterion with one bound lets no record
  through: the call returns the empty list or throws.\<close>

lemma every_half_range:
  assumes "(key, c) \<in> set criteria" and "half_range c"
  shows "every record criteria \<noteq> Inr True"
  using assms
proof (induction criteria)
  case Nil
  then show ?case by simp
next
  case (Cons e criteria)
  show ?case
  proof (cases "e = (key, c)")
    case True
    with Cons.prems(2) show ?thesis
      using half_range_unsatisfied [of c _ key] by simp
  next
    case False
    with Cons have "every record criteria \<noteq> Inr True" by simp
    then show ?thesis by (auto split: sum.splits bool.splits)
  qed
qed

lemma filter_every_half_range:
  assumes "(key, c) \<in> set criteria" and "half_range c"
  shows "filter_every criteria records = Inr [] \<or> filter_every criteria records = Inl TypeError"
proof (induction records)
  case Nil
  then show ?case by simp
next
  case (Cons r records)
  from every_half_range [OF assms] have "every r criteria \<noteq> Inr True" .
  then consider "every r criteria = Inl TypeError" | "every r criteria = Inr False"
    by (cases "every r criteria") (auto intro: js_error.exhaust)
  then show ?case
    using Cons by cases auto
qed

text \<open>
  Claim C7 fails on the code: the record of \<open>null_sunshine\<close> has \<open>sunshine\<close>
  \<open>null\<close>, which is exactly equal to the criterion value \<open>null\<close>, so the claim has the
  record in the result of \<open>searchData({sunshine: null})\<close>; the code throws a
  \<open>TypeError\<close> on \<open>null.min\<close>.
\<close>

theorem searchData_null_criterion:
  "searchData (Some null_sunshine) [(''sunshine'', Value Null)] = Inl TypeError
   \<and> filter (\<lambda>r. satisfies r (''sunshine'', Value Null)) null_sunshine = null_sunshine"
  by (simp add: searchData_def null_sunshine_def get_record)

text \<open>
  Claim C10 fails on the code for the same reason: with a \<open>null\<close> criterion before an
  object that carries only \<open>min\<close>, \<open>searchData({sunshine: null, humidity: {min: 70}})\<close>
  does not return the empty list, it throws a \<open>TypeError\<close>.
\<close>

theorem searchData_null_before_half_range:
  "searchData (Some null_sunshine)
     [(''sunshine'', Value Null), (''humidity'', Object [(''min'', Num (Fin 70))])] = Inl TypeError
   \<and> half_range (Object [(''min'', Num (Fin 70))])"
  by (simp add: searchData_def null_sunshine_def half_range_def obj_get_def)

end
